theory Spec2Isabelle
  imports Main "HOL-Library.Sublist"
begin

section \<open>The wire data model (payload.go)\<close>

text \<open>
  Go strings and byte slices are byte sequences; both are modelled as \<open>char list\<close>
  (a \<open>char\<close> is one byte). The named string types \<open>reqType\<close> and \<open>opID\<close> are
  plain strings, as in the source.
\<close>

type_synonym bytes = string
type_synonym reqType = string
type_synonym opID = string

definition gqlConnectionInit :: reqType where
  "gqlConnectionInit = ''connection_init''"

definition gqlStart :: reqType where
  "gqlStart = ''start''"

definition gqlStop :: reqType where
  "gqlStop = ''stop''"

definition gqlConnectionTerminate :: reqType where
  "gqlConnectionTerminate = ''connection_terminate''"

definition gqlConnectionError :: reqType where
  "gqlConnectionError = ''connection_error''"

definition gqlConnectionAck :: reqType where
  "gqlConnectionAck = ''connection_ack''"

definition gqlData :: reqType where
  "gqlData = ''data''"

definition gqlError :: reqType where
  "gqlError = ''error''"

definition gqlComplete :: reqType where
  "gqlComplete = ''complete''"

definition gqlConnectionKeepAlive :: reqType where
  "gqlConnectionKeepAlive = ''connection_keep_alive''"

text \<open>The ten message type tags, in the order of the source's constant block.\<close>

definition known_types :: "reqType list" where
  "known_types =
     [gqlConnectionInit, gqlStart, gqlStop, gqlConnectionTerminate,
      gqlConnectionError, gqlConnectionAck, gqlData, gqlError, gqlComplete,
      gqlConnectionKeepAlive]"

text \<open>
  A value of Go's \<open>interface{}\<close> as it occurs in \<open>Request.Variables\<close>: what
  \<open>encoding/json\<close> decodes a JSON value to (\<open>nil\<close>, \<open>bool\<close>, \<open>float64\<close>, \<open>string\<close>,
  \<open>[]interface{}\<close>, \<open>map[string]interface{}\<close>), and \<open>GChan\<close> for a value of a type
  that \<open>json.Marshal\<close> rejects (a channel or a function). A \<open>float64\<close> is
  represented by its JSON literal. A Go map is represented by its association list
  in ascending key order, the order in which \<open>json.Marshal\<close> emits it.
\<close>

datatype gvalue =
    GNil
  | GBool bool
  | GNumber bytes
  | GString string
  | GSlice "gvalue list"
  | GMap "(string \<times> gvalue) list"
  | GChan

text \<open>
  The three payload structs. A nil map or slice is \<open>None\<close>, a non-nil one (empty or
  not) is \<open>Some\<close>: the encoder tests \<open>v.Variables != nil\<close> and \<open>v.Errors != nil\<close>.
  A \<open>json.RawMessage\<close> is a byte slice; for \<open>Data\<close> the nil and the empty slice
  are both \<open>[]\<close> (the code only ever writes its bytes).
\<close>

record Request =
  Query :: string
  Variables :: "(string \<times> gvalue) list option"
  OperationName :: string

record Response =
  Data :: bytes
  Errors :: "bytes list option"

record ServerError =
  Msg :: string

text \<open>
  The \<open>payload\<close> interface: a pointer to one of the three structs, or the map type
  \<open>unknown\<close>. The nil interface is \<open>None\<close> in the envelope below.
\<close>

datatype payload =
    PRequest Request
  | PResponse Response
  | PServerError ServerError
  | PUnknown "(string \<times> gvalue) list"

record operationMessage =
  ID :: opID
  Type :: reqType
  Payload :: "payload option"

datatype error =
    SyntaxError
  | UnmarshalTypeError string string
  | UnsupportedTypeError
  | UnsupportedMessageType reqType
  | TransportError string


section \<open>The encoding primitives of encoding/json used by the codec\<close>

text \<open>
  \<open>encoding/json\<close> is an external library. The encoder of this repository calls it
  in one place, \<open>json.Marshal(v.Variables)\<close>; this section models that call on the
  values above. Strings are written as \<open>json.Marshal\<close> writes them: the double quote
  and the backslash are escaped with a backslash; newline, carriage return and tab
  are written as a backslash and \<open>n\<close>, \<open>r\<close>, \<open>t\<close>; every other byte below \<open>0x20\<close> and
  the characters \<open><\<close>, \<open>>\<close>, \<open>&\<close> are written as a backslash and \<open>u00XX\<close>; a byte that
  starts no well-formed UTF-8 sequence is written as a backslash and \<open>ufffd\<close>; the
  code points U+2028 and U+2029 are written as a backslash and \<open>u2028\<close>, \<open>u2029\<close>.
\<close>

definition dquote :: char where
  "dquote = CHR 0x22"

definition bslash :: char where
  "bslash = CHR 0x5C"

definition byte :: "char \<Rightarrow> nat" where
  "byte c = of_char c"

definition hex_digit :: "nat \<Rightarrow> char" where
  "hex_digit n = ''0123456789abcdef'' ! (n mod 16)"

definition is_cont :: "char \<Rightarrow> bool" where
  "is_cont c = (0x80 \<le> byte c \<and> byte c \<le> 0xBF)"

text \<open>
  \<open>utf8.DecodeRune\<close>, as far as the codec needs it: the length of the well-formed
  UTF-8 sequence at the head of the input, and 0 when the head byte starts none.
\<close>

fun rune_size :: "bytes \<Rightarrow> nat" where
  "rune_size [] = 0"
| "rune_size (c # cs) =
     (let b = byte c in
      if b < 0x80 then 1
      else if 0xC2 \<le> b \<and> b \<le> 0xDF then
        (case cs of
           c1 # _ \<Rightarrow> if is_cont c1 then 2 else 0
         | _ \<Rightarrow> 0)
      else if 0xE0 \<le> b \<and> b \<le> 0xEF then
        (case cs of
           c1 # c2 # _ \<Rightarrow>
             if (if b = 0xE0 then 0xA0 else 0x80) \<le> byte c1
                \<and> byte c1 \<le> (if b = 0xED then 0x9F else 0xBF) \<and> is_cont c2
             then 3 else 0
         | _ \<Rightarrow> 0)
      else if 0xF0 \<le> b \<and> b \<le> 0xF4 then
        (case cs of
           c1 # c2 # c3 # _ \<Rightarrow>
             if (if b = 0xF0 then 0x90 else 0x80) \<le> byte c1
                \<and> byte c1 \<le> (if b = 0xF4 then 0x8F else 0xBF)
                \<and> is_cont c2 \<and> is_cont c3
             then 4 else 0
         | _ \<Rightarrow> 0)
      else 0)"

definition escape_ascii :: "char \<Rightarrow> bytes" where
  "escape_ascii c =
     (if c = bslash \<or> c = dquote then [bslash, c]
      else if c = CHR 0x0A then [bslash, CHR ''n'']
      else if c = CHR 0x0D then [bslash, CHR ''r'']
      else if c = CHR 0x09 then [bslash, CHR ''t'']
      else if byte c < 0x20 \<or> c = CHR ''<'' \<or> c = CHR ''>'' \<or> c = CHR ''&'' then
        [bslash, CHR ''u'', CHR ''0'', CHR ''0'', hex_digit (byte c div 16), hex_digit (byte c mod 16)]
      else [c])"

text \<open>
  The body of a JSON string literal for a Go string. The second argument counts
  the continuation bytes of a well-formed sequence still to be copied.
\<close>

fun escape_string :: "nat \<Rightarrow> bytes \<Rightarrow> bytes" where
  "escape_string k [] = []"
| "escape_string (Suc k) (c # cs) = c # escape_string k cs"
| "escape_string 0 (c # cs) =
     (if byte c < 0x80 then escape_ascii c @ escape_string 0 cs
      else if rune_size (c # cs) = 0 then
        [bslash, CHR ''u'', CHR ''f'', CHR ''f'', CHR ''f'', CHR ''d''] @ escape_string 0 cs
      else if take 3 (c # cs) = [CHR 0xE2, CHR 0x80, CHR 0xA8] then
        [bslash, CHR ''u'', CHR ''2'', CHR ''0'', CHR ''2'', CHR ''8''] @ escape_string 0 (drop 2 cs)
      else if take 3 (c # cs) = [CHR 0xE2, CHR 0x80, CHR 0xA9] then
        [bslash, CHR ''u'', CHR ''2'', CHR ''0'', CHR ''2'', CHR ''9''] @ escape_string 0 (drop 2 cs)
      else c # escape_string (rune_size (c # cs) - 1) cs)"

definition quote_string :: "string \<Rightarrow> bytes" where
  "quote_string s = [dquote] @ escape_string 0 s @ [dquote]"

text \<open>
  \<open>json.Marshal\<close> on a decoded value: the first value of an unsupported type aborts
  the whole call with an error and no bytes.
\<close>

fun json_Marshal :: "gvalue \<Rightarrow> error + bytes"
  and marshal_elems :: "gvalue list \<Rightarrow> error + bytes"
  and marshal_members :: "(string \<times> gvalue) list \<Rightarrow> error + bytes"
where
  "json_Marshal GNil = Inr ''null''"
| "json_Marshal (GBool b) = Inr (if b then ''true'' else ''false'')"
| "json_Marshal (GNumber lit) = Inr lit"
| "json_Marshal (GString s) = Inr (quote_string s)"
| "json_Marshal (GSlice vs) =
     (case marshal_elems vs of
        Inl e \<Rightarrow> Inl e
      | Inr b \<Rightarrow> Inr (''['' @ b @ '']''))"
| "json_Marshal (GMap kvs) =
     (case marshal_members kvs of
        Inl e \<Rightarrow> Inl e
      | Inr b \<Rightarrow> Inr (''{'' @ b @ ''}''))"
| "json_Marshal GChan = Inl UnsupportedTypeError"
| "marshal_elems [] = Inr []"
| "marshal_elems (v # vs) =
     (case json_Marshal v of
        Inl e \<Rightarrow> Inl e
      | Inr b \<Rightarrow>
          (case marshal_elems vs of
             Inl e \<Rightarrow> Inl e
           | Inr bs \<Rightarrow> Inr (if vs = [] then b else b @ '','' @ bs)))"
| "marshal_members [] = Inr []"
| "marshal_members ((k, v) # kvs) =
     (case json_Marshal v of
        Inl e \<Rightarrow> Inl e
      | Inr b \<Rightarrow>
          (case marshal_members kvs of
             Inl e \<Rightarrow> Inl e
           | Inr bs \<Rightarrow>
               Inr (quote_string k @ '':'' @ (if kvs = [] then b else b @ '','' @ bs))))"

section \<open>The encoder (MarshalJSON and marshalPayload)\<close>

text \<open>
  \<open>marshalPayload(w, payload)\<close> writes to \<open>w\<close> and returns an error. The writer is
  the \<open>bytes.Buffer\<close> of \<open>MarshalJSON\<close>, whose writes cannot fail: the model takes the
  bytes written so far and returns them extended, beside the error. On an error of
  \<open>json.Marshal\<close> the function returns at once, with what it had written.
\<close>

text \<open>
  The loop over \<open>v.Errors\<close>: \<open>l\<close> is \<open>len(v.Errors) - 1\<close> and \<open>i\<close> the index of the
  element at hand.
\<close>

fun write_errors :: "bytes \<Rightarrow> int \<Rightarrow> int \<Rightarrow> bytes list \<Rightarrow> bytes" where
  "write_errors w l i [] = w"
| "write_errors w l i (err # errs) =
     (let w = w @ err;
          w = (if i < l then w @ '','' else w)
      in write_errors w l (i + 1) errs)"

definition marshalPayload :: "bytes \<Rightarrow> payload \<Rightarrow> bytes \<times> error option" where
  \<open>marshalPayload w p =
     (case p of
        PRequest v \<Rightarrow>
          (let w = w @ ''{"query":"'';
               w = w @ Query v;
               w = w @ ''"''
           in case (case Variables v of
                      None \<Rightarrow> (w, None)
                    | Some vars \<Rightarrow>
                        (let w = w @ '',"variables":''
                         in case json_Marshal (GMap vars) of
                              Inl err \<Rightarrow> (w, Some err)
                            | Inr b \<Rightarrow> (w @ b, None))) of
                (w, Some err) \<Rightarrow> (w, Some err)
              | (w, None) \<Rightarrow>
                  (let w = (if OperationName v \<noteq> []
                            then w @ '',"operationName":"'' @ OperationName v @ ''"''
                            else w)
                   in (w @ ''}'', None)))
      | PResponse v \<Rightarrow>
          (let w = w @ ''{"data":'';
               w = w @ Data v;
               w = (case Errors v of
                      None \<Rightarrow> w
                    | Some errs \<Rightarrow>
                        (let w = w @ '',"errors":['';
                             l = int (length errs) - 1;
                             w = write_errors w l 0 errs
                         in w @ '']''))
           in (w @ ''}'', None))
      | PServerError v \<Rightarrow>
          (let w = w @ ''{"msg":"'';
               w = w @ Msg v
           in (w @ ''"}'', None))
      | PUnknown u \<Rightarrow> (w, None))\<close>

text \<open>
  \<open>MarshalJSON\<close> returns the buffer and a nil error; the error of \<open>marshalPayload\<close>
  is not looked at.
\<close>

definition MarshalJSON :: "operationMessage \<Rightarrow> bytes \<times> error option" where
  \<open>MarshalJSON m =
     (let b = ''{'';
          b = (if ID m \<noteq> [] then b @ ''"id":"'' @ ID m @ ''",'' else b);
          b = b @ ''"type":"'';
          b = b @ Type m;
          b = b @ ''"'';
          b = (case Payload m of
                 None \<Rightarrow> b
               | Some p \<Rightarrow> fst (marshalPayload (b @ '',"payload":'') p));
          b = b @ ''}''
      in (b, None))\<close>

section \<open>The decoding primitives of encoding/json used by the codec\<close>

text \<open>
  \<open>json.Unmarshal\<close> is the other call into the external library. It first checks
  the whole input with the library's scanner (\<open>checkValid\<close>), a pushdown automaton
  that reads one byte at a time, and only then decodes. This section models the
  scanner state by state, and the decoding of the validated text into the struct
  types of this repository.
\<close>

subsection \<open>The scanner\<close>

datatype parse_state = parseObjectKey | parseObjectValue | parseArrayValue

datatype step_state =
    stateBeginValueOrEmpty | stateBeginValue | stateBeginStringOrEmpty | stateBeginString
  | stateEndValue | stateEndTop
  | stateInString | stateInStringEsc | stateInStringEscU | stateInStringEscU1
  | stateInStringEscU12 | stateInStringEscU123
  | stateNeg | state1 | state0 | stateDot | stateDot0 | stateE | stateESign | stateE0
  | stateT | stateTr | stateTru | stateF | stateFa | stateFal | stateFals
  | stateN | stateNu | stateNul
  | stateError

text \<open>
  A scanner is its step state and its stack of parse states, innermost first. The
  flag \<open>endTop\<close> of the library is set exactly when the step state becomes
  \<open>stateEndTop\<close>, and its error is set exactly when the step state becomes
  \<open>stateError\<close>.
\<close>

type_synonym scanner = "step_state \<times> parse_state list"

definition isSpace :: "char \<Rightarrow> bool" where
  "isSpace c = (c = CHR '' '' \<or> c = CHR 0x09 \<or> c = CHR 0x0D \<or> c = CHR 0x0A)"

definition isDigit :: "char \<Rightarrow> bool" where
  "isDigit c = (byte (CHR ''0'') \<le> byte c \<and> byte c \<le> byte (CHR ''9''))"

definition isHex :: "char \<Rightarrow> bool" where
  "isHex c =
     (isDigit c \<or> (byte (CHR ''a'') \<le> byte c \<and> byte c \<le> byte (CHR ''f''))
      \<or> (byte (CHR ''A'') \<le> byte c \<and> byte c \<le> byte (CHR ''F'')))"

definition maxNestingDepth :: nat where
  "maxNestingDepth = 10000"

definition pushParseState :: "parse_state list \<Rightarrow> parse_state \<Rightarrow> step_state \<Rightarrow> scanner" where
  "pushParseState ps newParseState successState =
     (if length (newParseState # ps) \<le> maxNestingDepth
      then (successState, newParseState # ps)
      else (stateError, newParseState # ps))"

definition popParseState :: "parse_state list \<Rightarrow> scanner" where
  "popParseState ps =
     (if tl ps = [] then (stateEndTop, tl ps) else (stateEndValue, tl ps))"

definition step_EndTop :: "parse_state list \<Rightarrow> char \<Rightarrow> scanner" where
  "step_EndTop ps c = (if \<not> isSpace c then (stateError, ps) else (stateEndTop, ps))"

definition step_EndValue :: "parse_state list \<Rightarrow> char \<Rightarrow> scanner" where
  "step_EndValue ps c =
     (case ps of
        [] \<Rightarrow> step_EndTop ps c
      | p # ps' \<Rightarrow>
          if isSpace c then (stateEndValue, ps)
          else (case p of
                  parseObjectKey \<Rightarrow>
                    if c = CHR '':'' then (stateBeginValue, parseObjectValue # ps')
                    else (stateError, ps)
                | parseObjectValue \<Rightarrow>
                    if c = CHR '','' then (stateBeginString, parseObjectKey # ps')
                    else if c = CHR ''}'' then popParseState ps
                    else (stateError, ps)
                | parseArrayValue \<Rightarrow>
                    if c = CHR '','' then (stateBeginValue, ps)
                    else if c = CHR '']'' then popParseState ps
                    else (stateError, ps)))"

definition step_BeginValue :: "step_state \<Rightarrow> parse_state list \<Rightarrow> char \<Rightarrow> scanner" where
  "step_BeginValue st ps c =
     (if isSpace c then (st, ps)
      else if c = CHR ''{'' then pushParseState ps parseObjectKey stateBeginStringOrEmpty
      else if c = CHR ''['' then pushParseState ps parseArrayValue stateBeginValueOrEmpty
      else if c = dquote then (stateInString, ps)
      else if c = CHR ''-'' then (stateNeg, ps)
      else if c = CHR ''0'' then (state0, ps)
      else if c = CHR ''t'' then (stateT, ps)
      else if c = CHR ''f'' then (stateF, ps)
      else if c = CHR ''n'' then (stateN, ps)
      else if isDigit c then (state1, ps)
      else (stateError, ps))"

definition step_BeginString :: "step_state \<Rightarrow> parse_state list \<Rightarrow> char \<Rightarrow> scanner" where
  "step_BeginString st ps c =
     (if isSpace c then (st, ps)
      else if c = dquote then (stateInString, ps)
      else (stateError, ps))"

definition step_0 :: "parse_state list \<Rightarrow> char \<Rightarrow> scanner" where
  "step_0 ps c =
     (if c = CHR ''.'' then (stateDot, ps)
      else if c = CHR ''e'' \<or> c = CHR ''E'' then (stateE, ps)
      else step_EndValue ps c)"

definition step_ESign :: "parse_state list \<Rightarrow> char \<Rightarrow> scanner" where
  "step_ESign ps c = (if isDigit c then (stateE0, ps) else (stateError, ps))"

definition expect :: "char \<Rightarrow> step_state \<Rightarrow> parse_state list \<Rightarrow> char \<Rightarrow> scanner" where
  "expect want next ps c = (if c = want then (next, ps) else (stateError, ps))"

fun step :: "scanner \<Rightarrow> char \<Rightarrow> scanner" where
  "step (stateBeginValueOrEmpty, ps) c =
     (if isSpace c then (stateBeginValueOrEmpty, ps)
      else if c = CHR '']'' then step_EndValue ps c
      else step_BeginValue stateBeginValueOrEmpty ps c)"
| "step (stateBeginValue, ps) c = step_BeginValue stateBeginValue ps c"
| "step (stateBeginStringOrEmpty, ps) c =
     (if isSpace c then (stateBeginStringOrEmpty, ps)
      else if c = CHR ''}'' then step_EndValue (parseObjectValue # tl ps) c
      else step_BeginString stateBeginStringOrEmpty ps c)"
| "step (stateBeginString, ps) c = step_BeginString stateBeginString ps c"
| "step (stateEndValue, ps) c = step_EndValue ps c"
| "step (stateEndTop, ps) c = step_EndTop ps c"
| "step (stateInString, ps) c =
     (if c = dquote then (stateEndValue, ps)
      else if c = bslash then (stateInStringEsc, ps)
      else if byte c < 0x20 then (stateError, ps)
      else (stateInString, ps))"
| "step (stateInStringEsc, ps) c =
     (if c \<in> set ''bfnrt/'' \<or> c = bslash \<or> c = dquote then (stateInString, ps)
      else if c = CHR ''u'' then (stateInStringEscU, ps)
      else (stateError, ps))"
| "step (stateInStringEscU, ps) c = (if isHex c then (stateInStringEscU1, ps) else (stateError, ps))"
| "step (stateInStringEscU1, ps) c = (if isHex c then (stateInStringEscU12, ps) else (stateError, ps))"
| "step (stateInStringEscU12, ps) c = (if isHex c then (stateInStringEscU123, ps) else (stateError, ps))"
| "step (stateInStringEscU123, ps) c = (if isHex c then (stateInString, ps) else (stateError, ps))"
| "step (stateNeg, ps) c =
     (if c = CHR ''0'' then (state0, ps)
      else if isDigit c then (state1, ps)
      else (stateError, ps))"
| "step (state1, ps) c = (if isDigit c then (state1, ps) else step_0 ps c)"
| "step (state0, ps) c = step_0 ps c"
| "step (stateDot, ps) c = (if isDigit c then (stateDot0, ps) else (stateError, ps))"
| "step (stateDot0, ps) c =
     (if isDigit c then (stateDot0, ps)
      else if c = CHR ''e'' \<or> c = CHR ''E'' then (stateE, ps)
      else step_EndValue ps c)"
| "step (stateE, ps) c =
     (if c = CHR ''+'' \<or> c = CHR ''-'' then (stateESign, ps) else step_ESign ps c)"
| "step (stateESign, ps) c = step_ESign ps c"
| "step (stateE0, ps) c = (if isDigit c then (stateE0, ps) else step_EndValue ps c)"
| "step (stateT, ps) c = expect (CHR ''r'') stateTr ps c"
| "step (stateTr, ps) c = expect (CHR ''u'') stateTru ps c"
| "step (stateTru, ps) c = expect (CHR ''e'') stateEndValue ps c"
| "step (stateF, ps) c = expect (CHR ''a'') stateFa ps c"
| "step (stateFa, ps) c = expect (CHR ''l'') stateFal ps c"
| "step (stateFal, ps) c = expect (CHR ''s'') stateFals ps c"
| "step (stateFals, ps) c = expect (CHR ''e'') stateEndValue ps c"
| "step (stateN, ps) c = expect (CHR ''u'') stateNu ps c"
| "step (stateNu, ps) c = expect (CHR ''l'') stateNul ps c"
| "step (stateNul, ps) c = expect (CHR ''l'') stateEndValue ps c"
| "step (stateError, ps) c = (stateError, ps)"

text \<open>
  \<open>scanner.eof\<close>: at the end of the input the scanner is fed one space; the input
  is complete when that ends the top-level value.
\<close>

definition eof :: "scanner \<Rightarrow> bool" where
  "eof s =
     (if fst s = stateError then False
      else if fst s = stateEndTop then True
      else fst (step s (CHR '' '')) = stateEndTop)"

definition checkValid :: "bytes \<Rightarrow> bool" where
  "checkValid data = eof (foldl step (stateBeginValue, []) data)"


subsection \<open>Values of a validated text\<close>

text \<open>
  The decoder walks a text that \<open>checkValid\<close> has accepted. The functions below find
  where a value ends and split an object or an array into its parts; on a validated
  text they cut where the library's decoder cuts.
\<close>

definition skip_space :: "bytes \<Rightarrow> bytes" where
  "skip_space b = dropWhile isSpace b"

datatype span_mode = Plain | InStr | InEsc

text \<open>
  The number of bytes up to and including the one that ends the value at hand:
  the closing quote of a string entered at nesting depth 0, or the bracket that
  closes nesting depth 1.
\<close>

fun span_len :: "span_mode \<Rightarrow> nat \<Rightarrow> bytes \<Rightarrow> nat" where
  "span_len m d [] = 0"
| "span_len InEsc d (c # cs) = Suc (span_len InStr d cs)"
| "span_len InStr d (c # cs) =
     (if c = bslash then Suc (span_len InEsc d cs)
      else if c = dquote then (if d = 0 then 1 else Suc (span_len Plain d cs))
      else Suc (span_len InStr d cs))"
| "span_len Plain d (c # cs) =
     (if c = dquote then Suc (span_len InStr d cs)
      else if c = CHR ''{'' \<or> c = CHR ''['' then Suc (span_len Plain (Suc d) cs)
      else if c = CHR ''}'' \<or> c = CHR '']'' then
        (if d \<le> 1 then 1 else Suc (span_len Plain (d - 1) cs))
      else Suc (span_len Plain d cs))"

definition is_delim :: "char \<Rightarrow> bool" where
  "is_delim c = (isSpace c \<or> c = CHR '','' \<or> c = CHR ''}'' \<or> c = CHR '']'')"

text \<open>The length of the value that starts at the head of the input.\<close>

definition value_len :: "bytes \<Rightarrow> nat" where
  "value_len b =
     (case b of
        [] \<Rightarrow> 0
      | c # cs \<Rightarrow>
          if c = dquote then Suc (span_len InStr 0 cs)
          else if c = CHR ''{'' \<or> c = CHR ''['' then span_len Plain 0 b
          else length (takeWhile (\<lambda>c. \<not> is_delim c) b))"

lemma length_skip_space: "length (skip_space b) \<le> length b"
  by (simp add: skip_space_def length_dropWhile_le)

text \<open>
  The members of an object, in the order of the text: the input starts after the
  opening brace; each member is the body of its key (between the quotes, escapes not
  yet resolved) and the text of its value.
\<close>

function object_members :: "bytes \<Rightarrow> (bytes \<times> bytes) list" where
  "object_members b =
     (case skip_space b of
        [] \<Rightarrow> []
      | c # cs \<Rightarrow>
          if c = CHR '','' then object_members cs
          else if c = dquote then
            (let klen = span_len InStr 0 cs;
                 key = take (klen - 1) cs;
                 r1 = skip_space (drop klen cs);
                 r2 = skip_space (drop 1 r1);
                 vlen = value_len r2
             in (key, take vlen r2) # object_members (drop vlen r2))
          else [])"
  by pat_completeness auto
termination
proof (relation "measure length", goal_cases)
  case 1
  show ?case by simp
next
  case (2 b c cs)
  have "length (skip_space b) \<le> length b" by (rule length_skip_space)
  with 2 show ?case by simp
next
  case (3 b c cs klen key r1 r2 vlen)
  have "length (skip_space b) \<le> length b" by (rule length_skip_space)
  moreover have "length r2 \<le> length r1" using 3 length_skip_space [of "drop 1 r1"] by simp
  moreover have "length r1 \<le> length cs" using 3 length_skip_space [of "drop klen cs"] by simp
  ultimately show ?case using 3 by simp
qed

text \<open>The elements of an array, in order: the input starts after the opening bracket.\<close>

function array_elements :: "bytes \<Rightarrow> bytes list" where
  "array_elements b =
     (case skip_space b of
        [] \<Rightarrow> []
      | c # cs \<Rightarrow>
          if c = CHR '','' then array_elements cs
          else if c = CHR '']'' then []
          else (let r = c # cs; vlen = value_len r
                in take vlen r # array_elements (drop (max 1 vlen) r)))"
  by pat_completeness auto
termination
proof (relation "measure length", goal_cases)
  case 1
  show ?case by simp
next
  case (2 b c cs)
  have "length (skip_space b) \<le> length b" by (rule length_skip_space)
  with 2 show ?case by simp
next
  case (3 b c cs r vlen)
  have "length (skip_space b) \<le> length b" by (rule length_skip_space)
  with 3 show ?case by simp
qed

subsection \<open>String literals and field names\<close>

definition hex_value :: "char \<Rightarrow> nat" where
  "hex_value c =
     (if isDigit c then byte c - byte (CHR ''0'')
      else if byte (CHR ''a'') \<le> byte c \<and> byte c \<le> byte (CHR ''f'') then byte c - byte (CHR ''a'') + 10
      else byte c - byte (CHR ''A'') + 10)"

text \<open>
  \<open>getu4\<close>: the code unit of an escape, a backslash, \<open>u\<close> and four hexadecimal
  digits, at the head of the input.
\<close>

definition getu4 :: "bytes \<Rightarrow> nat option" where
  "getu4 s =
     (case s of
        b # u # h1 # h2 # h3 # h4 # _ \<Rightarrow>
          if b = bslash \<and> u = CHR ''u'' \<and> isHex h1 \<and> isHex h2 \<and> isHex h3 \<and> isHex h4
          then Some (((hex_value h1 * 16 + hex_value h2) * 16 + hex_value h3) * 16 + hex_value h4)
          else None
      | _ \<Rightarrow> None)"

definition char_of_nat :: "nat \<Rightarrow> char" where
  "char_of_nat n = char_of n"

text \<open>\<open>utf8.EncodeRune\<close>: surrogates and values beyond U+10FFFF become U+FFFD.\<close>

definition utf8_encode :: "nat \<Rightarrow> bytes" where
  "utf8_encode r =
     (if r < 0x80 then [char_of_nat r]
      else if r < 0x800 then [char_of_nat (0xC0 + r div 64), char_of_nat (0x80 + r mod 64)]
      else if (0xD800 \<le> r \<and> r < 0xE000) \<or> 0x10FFFF < r then [CHR 0xEF, CHR 0xBF, CHR 0xBD]
      else if r < 0x10000 then
        [char_of_nat (0xE0 + r div 4096), char_of_nat (0x80 + (r div 64) mod 64),
         char_of_nat (0x80 + r mod 64)]
      else
        [char_of_nat (0xF0 + r div 262144), char_of_nat (0x80 + (r div 4096) mod 64),
         char_of_nat (0x80 + (r div 64) mod 64), char_of_nat (0x80 + r mod 64)])"

definition simple_escape :: "char \<Rightarrow> char option" where
  "simple_escape e =
     (if e = dquote \<or> e = bslash \<or> e = CHR ''/'' then Some e
      else if e = CHR ''b'' then Some (CHR 0x08)
      else if e = CHR ''f'' then Some (CHR 0x0C)
      else if e = CHR ''n'' then Some (CHR 0x0A)
      else if e = CHR ''r'' then Some (CHR 0x0D)
      else if e = CHR ''t'' then Some (CHR 0x09)
      else None)"

text \<open>
  \<open>unquote\<close>: the Go string of the body of a string literal. Escapes are resolved,
  a pair of surrogate escapes becomes one code point, a lone surrogate and a byte
  that starts no well-formed UTF-8 sequence become U+FFFD. The first argument counts
  bytes of the input that an escape or a sequence has already used up. An escape
  that the scanner would have refused ends the string.
\<close>

fun unquote :: "nat \<Rightarrow> bytes \<Rightarrow> bytes" where
  "unquote k [] = []"
| "unquote (Suc k) (c # cs) = unquote k cs"
| "unquote 0 (c # cs) =
     (if c = bslash then
        (case cs of
           [] \<Rightarrow> []
         | e # es \<Rightarrow>
             if e = CHR ''u'' then
               (case getu4 (c # cs) of
                  None \<Rightarrow> []
                | Some rr \<Rightarrow>
                    if 0xD800 \<le> rr \<and> rr < 0xE000 then
                      (case getu4 (drop 5 cs) of
                         None \<Rightarrow> utf8_encode 0xFFFD @ unquote 5 cs
                       | Some rr1 \<Rightarrow>
                           if rr < 0xDC00 \<and> 0xDC00 \<le> rr1 \<and> rr1 < 0xE000
                           then utf8_encode ((rr - 0xD800) * 1024 + (rr1 - 0xDC00) + 0x10000)
                                  @ unquote 11 cs
                           else utf8_encode 0xFFFD @ unquote 5 cs)
                    else utf8_encode rr @ unquote 5 cs)
             else (case simple_escape e of
                     None \<Rightarrow> []
                   | Some x \<Rightarrow> x # unquote 1 cs))
      else if byte c < 0x80 then c # unquote 0 cs
      else if rune_size (c # cs) = 0 then utf8_encode 0xFFFD @ unquote 0 cs
      else take (rune_size (c # cs)) (c # cs) @ unquote (rune_size (c # cs) - 1) cs)"

text \<open>
  A key of the input names a struct field when the two are equal under Unicode
  simple case folding. The field names of this repository are ASCII letters, so a
  key is folded by lowering its ASCII letters and by replacing the two other letters
  that fold to an ASCII letter, U+017F (to \<open>s\<close>) and U+212A (to \<open>k\<close>).
\<close>

fun fold_name :: "bytes \<Rightarrow> bytes" where
  "fold_name [] = []"
| "fold_name (c # cs) =
     (if byte (CHR ''A'') \<le> byte c \<and> byte c \<le> byte (CHR ''Z'')
      then char_of_nat (byte c + 32) # fold_name cs
      else if take 2 (c # cs) = [CHR 0xC5, CHR 0xBF] then CHR ''s'' # fold_name (tl cs)
      else if take 3 (c # cs) = [CHR 0xE2, CHR 0x84, CHR 0xAA] then CHR ''k'' # fold_name (tl (tl cs))
      else c # fold_name cs)"

text \<open>The kind of the value at the head of a validated text, as the library names it in errors.\<close>

definition value_kind :: "bytes \<Rightarrow> string" where
  "value_kind v =
     (case v of
        [] \<Rightarrow> ''''
      | c # _ \<Rightarrow>
          if c = dquote then ''string''
          else if c = CHR ''{'' then ''object''
          else if c = CHR ''['' then ''array''
          else if c = CHR ''t'' \<or> c = CHR ''f'' then ''bool''
          else if c = CHR ''n'' then ''null''
          else ''number'')"

text \<open>The Go string of a string literal, quotes included in the input.\<close>

definition string_of_literal :: "bytes \<Rightarrow> string" where
  "string_of_literal v = unquote 0 (butlast (tl v))"

subsection \<open>Decoding into Go values\<close>

lemma object_members_length:
  "(k, x) \<in> set (object_members b) \<Longrightarrow> length x \<le> length b"
proof (induction b rule: object_members.induct)
  case (1 b)
  show ?case
  proof (cases "skip_space b")
    case Nil
    with "1.prems" show ?thesis by (simp add: object_members.simps [of b])
  next
    case (Cons c cs)
    have le: "length (c # cs) \<le> length b"
      using length_skip_space [of b] Cons by simp
    show ?thesis
    proof (cases "c = CHR '',''")
      case True
      with "1.prems" Cons have "(k, x) \<in> set (object_members cs)"
        by (simp add: object_members.simps [of b])
      with "1.IH"(1) [OF Cons True] le show ?thesis by simp
    next
      case False
      show ?thesis
      proof (cases "c = dquote")
        case q: True
        define klen where "klen = span_len InStr 0 cs"
        define r1 where "r1 = skip_space (drop klen cs)"
        define r2 where "r2 = skip_space (drop 1 r1)"
        define vlen where "vlen = value_len r2"
        have r2: "length r2 \<le> length cs"
          using length_skip_space [of "drop 1 r1"] length_skip_space [of "drop klen cs"]
          by (simp add: r1_def r2_def)
        from "1.prems" Cons False q
        have "(k, x) = (take (klen - 1) cs, take vlen r2) \<or> (k, x) \<in> set (object_members (drop vlen r2))"
          by (simp add: object_members.simps [of b] Let_def klen_def r1_def r2_def vlen_def)
        then show ?thesis
        proof
          assume "(k, x) = (take (klen - 1) cs, take vlen r2)"
          with r2 le show ?thesis by simp
        next
          assume "(k, x) \<in> set (object_members (drop vlen r2))"
          with "1.IH"(2) [OF Cons False q klen_def refl r1_def r2_def vlen_def]
          have "length x \<le> length (drop vlen r2)" by simp
          with r2 le show ?thesis by simp
        qed
      next
        case False
        with "1.prems" Cons \<open>c \<noteq> CHR '',''\<close> show ?thesis
          by (simp add: object_members.simps [of b])
      qed
    qed
  qed
qed

lemma array_elements_length:
  "x \<in> set (array_elements b) \<Longrightarrow> length x \<le> length b"
proof (induction b rule: array_elements.induct)
  case (1 b)
  show ?case
  proof (cases "skip_space b")
    case Nil
    with "1.prems" show ?thesis by (simp add: array_elements.simps [of b])
  next
    case (Cons c cs)
    have le: "length (c # cs) \<le> length b"
      using length_skip_space [of b] Cons by simp
    show ?thesis
    proof (cases "c = CHR '',''")
      case True
      with "1.prems" Cons have "x \<in> set (array_elements cs)"
        by (simp add: array_elements.simps [of b])
      with "1.IH"(1) [OF Cons True] le show ?thesis by simp
    next
      case False
      show ?thesis
      proof (cases "c = CHR '']''")
        case True
        with "1.prems" Cons False show ?thesis
          by (simp add: array_elements.simps [of b])
      next
        case nb: False
        define vlen where "vlen = value_len (c # cs)"
        from "1.prems" Cons False nb
        have "x = take vlen (c # cs) \<or> x \<in> set (array_elements (drop (max 1 vlen) (c # cs)))"
          by (simp add: array_elements.simps [of b] Let_def vlen_def)
        then show ?thesis
        proof
          assume "x = take vlen (c # cs)"
          with le show ?thesis by simp
        next
          assume "x \<in> set (array_elements (drop (max 1 vlen) (c # cs)))"
          with "1.IH"(2) [OF Cons False nb refl vlen_def]
          have "length x \<le> length (drop (max 1 vlen) (c # cs))" by simp
          with le show ?thesis by simp
        qed
      qed
    qed
  qed
qed

text \<open>Byte-wise order of Go strings, and a map entry set in a key-ordered association list.\<close>

fun bytes_less :: "bytes \<Rightarrow> bytes \<Rightarrow> bool" where
  "bytes_less [] [] = False"
| "bytes_less [] (y # ys) = True"
| "bytes_less (x # xs) [] = False"
| "bytes_less (x # xs) (y # ys) = (byte x < byte y \<or> (x = y \<and> bytes_less xs ys))"

fun map_put :: "string \<Rightarrow> 'v \<Rightarrow> (string \<times> 'v) list \<Rightarrow> (string \<times> 'v) list" where
  "map_put k v [] = [(k, v)]"
| "map_put k v ((k', v') # m) =
     (if k = k' then (k, v) # m
      else if bytes_less k k' then (k, v) # (k', v') # m
      else (k', v') # map_put k v m)"

definition map_put_all :: "(string \<times> 'v) list \<Rightarrow> (string \<times> 'v) list \<Rightarrow> (string \<times> 'v) list" where
  "map_put_all m kvs = foldl (\<lambda>m kv. map_put (fst kv) (snd kv) m) m kvs"

text \<open>
  A JSON value decoded into an \<open>interface{}\<close>. A number keeps its literal; that
  \<open>json.Unmarshal\<close> refuses a literal beyond the range of \<open>float64\<close> is outside the
  model.
\<close>

function decode_value :: "bytes \<Rightarrow> gvalue" where
  "decode_value v =
     (if value_kind v = ''string'' then GString (string_of_literal v)
      else if value_kind v = ''object'' then
        GMap (map_put_all []
               (map (\<lambda>kx. (unquote 0 (fst kx), decode_value (snd kx))) (object_members (tl v))))
      else if value_kind v = ''array'' then GSlice (map decode_value (array_elements (tl v)))
      else if value_kind v = ''bool'' then GBool (v = ''true'')
      else if value_kind v = ''null'' then GNil
      else GNumber v)"
  by pat_completeness auto
termination
proof (relation "measure length", goal_cases)
  case 1
  show ?case by simp
next
  case (2 v kx)
  from 2 have "v \<noteq> []" by (auto simp: value_kind_def)
  moreover from 2 have "length (snd kx) \<le> length (tl v)"
    using object_members_length [of "fst kx" "snd kx" "tl v"] by simp
  ultimately show ?case by (cases v) simp_all
next
  case (3 v x)
  from 3 have "v \<noteq> []" by (auto simp: value_kind_def)
  moreover from 3 have "length x \<le> length (tl v)"
    using array_elements_length [of x "tl v"] by simp
  ultimately show ?case by (cases v) simp_all
qed

subsection \<open>Decoding into the structs of the codec\<close>

text \<open>
  A struct is decoded member by member, in the order of the text. A member whose key
  names no field is skipped. A value of the wrong kind for its field leaves the field
  as it is and is remembered as an \<open>UnmarshalTypeError\<close>; decoding goes on, and the
  first such error is returned at the end. The field setter says what a member does
  to the struct.
\<close>

type_synonym 's field_setter = "string \<Rightarrow> bytes \<Rightarrow> 's \<Rightarrow> 's \<times> error option"

definition saveError :: "error option \<Rightarrow> error option \<Rightarrow> error option" where
  "saveError saved err = (case saved of None \<Rightarrow> err | Some e \<Rightarrow> Some e)"

text \<open>
  The members of the object \<open>v\<close> as the decoder sees them: the key unquoted and
  folded, beside the text of the value.
\<close>

definition named_members :: "bytes \<Rightarrow> (string \<times> bytes) list" where
  "named_members v =
     map (\<lambda>kv. (fold_name (unquote 0 (fst kv)), snd kv)) (object_members (tl v))"

definition decode_member ::
  "'s field_setter \<Rightarrow> 's \<times> error option \<Rightarrow> string \<times> bytes \<Rightarrow> 's \<times> error option" where
  "decode_member bind acc kv =
     (let (s, err) = bind (fst kv) (snd kv) (fst acc)
      in (s, saveError (snd acc) err))"

definition json_Unmarshal :: "'s field_setter \<Rightarrow> bytes \<Rightarrow> 's \<Rightarrow> 's \<times> error option" where
  "json_Unmarshal bind data s =
     (if \<not> checkValid data then (s, Some SyntaxError)
      else (let v = skip_space data in
            if value_kind v = ''object'' then
              foldl (decode_member bind) (s, None) (named_members v)
            else if value_kind v = ''null'' then (s, None)
            else (s, Some (UnmarshalTypeError (value_kind v) []))))"

text \<open>A field of kind string: a string literal sets it, \<open>null\<close> leaves it.\<close>

definition store_string :: "string \<Rightarrow> bytes \<Rightarrow> string \<Rightarrow> string \<times> error option" where
  "store_string field v cur =
     (if value_kind v = ''string'' then (string_of_literal v, None)
      else if value_kind v = ''null'' then (cur, None)
      else (cur, Some (UnmarshalTypeError (value_kind v) field)))"

text \<open>
  The anonymous struct \<open>raw\<close> of \<open>UnmarshalJSON\<close>. A \<open>json.RawMessage\<close> takes the text
  of its value as it stands, also for \<open>null\<close>.
\<close>

record rawMessage =
  raw_ID :: opID
  raw_Type :: reqType
  raw_Payload :: bytes

definition bind_raw :: "rawMessage field_setter" where
  "bind_raw name v s =
     (if name = ''id'' then
        (let (x, err) = store_string ''id'' v (raw_ID s) in (s\<lparr>raw_ID := x\<rparr>, err))
      else if name = ''type'' then
        (let (x, err) = store_string ''type'' v (raw_Type s) in (s\<lparr>raw_Type := x\<rparr>, err))
      else if name = ''payload'' then (s\<lparr>raw_Payload := v\<rparr>, None)
      else (s, None))"

definition bind_Request :: "Request field_setter" where
  "bind_Request name v s =
     (if name = ''query'' then
        (let (x, err) = store_string ''query'' v (Query s) in (s\<lparr>Query := x\<rparr>, err))
      else if name = ''variables'' then
        (if value_kind v = ''object'' then
           (s\<lparr>Variables :=
                Some (map_put_all (case Variables s of None \<Rightarrow> [] | Some m \<Rightarrow> m)
                        (map (\<lambda>kx. (unquote 0 (fst kx), decode_value (snd kx)))
                           (object_members (tl v))))\<rparr>,
            None)
         else if value_kind v = ''null'' then (s\<lparr>Variables := None\<rparr>, None)
         else (s, Some (UnmarshalTypeError (value_kind v) ''variables'')))
      else if name = ''operationname'' then
        (let (x, err) = store_string ''operationName'' v (OperationName s)
         in (s\<lparr>OperationName := x\<rparr>, err))
      else (s, None))"

definition bind_Response :: "Response field_setter" where
  "bind_Response name v s =
     (if name = ''data'' then (s\<lparr>Data := v\<rparr>, None)
      else if name = ''errors'' then
        (if value_kind v = ''array'' then (s\<lparr>Errors := Some (array_elements (tl v))\<rparr>, None)
         else if value_kind v = ''null'' then (s\<lparr>Errors := None\<rparr>, None)
         else (s, Some (UnmarshalTypeError (value_kind v) ''errors'')))
      else (s, None))"

definition bind_ServerError :: "ServerError field_setter" where
  "bind_ServerError name v s =
     (if name = ''msg'' then
        (let (x, err) = store_string ''msg'' v (Msg s) in (s\<lparr>Msg := x\<rparr>, err))
      else (s, None))"

section \<open>The decoder (UnmarshalJSON)\<close>

text \<open>
  \<open>UnmarshalJSON\<close> mutates its receiver \<open>m\<close> and returns an error: the model takes
  the receiver and returns it updated, beside the error. \<open>new(Request)\<close>,
  \<open>new(Response)\<close> and \<open>new(ServerError)\<close> are the zero structs.
\<close>

definition new_Request :: Request where
  "new_Request = \<lparr>Query = [], Variables = None, OperationName = []\<rparr>"

definition new_Response :: Response where
  "new_Response = \<lparr>Data = [], Errors = None\<rparr>"

definition new_ServerError :: ServerError where
  "new_ServerError = \<lparr>Msg = []\<rparr>"

definition new_raw :: rawMessage where
  "new_raw = \<lparr>raw_ID = [], raw_Type = [], raw_Payload = []\<rparr>"

definition UnmarshalJSON :: "operationMessage \<Rightarrow> bytes \<Rightarrow> operationMessage \<times> error option" where
  "UnmarshalJSON m b =
     (case json_Unmarshal bind_raw b new_raw of
        (raw, Some err) \<Rightarrow> (m, Some err)
      | (raw, None) \<Rightarrow>
          (let m = m\<lparr>Type := raw_Type raw\<rparr>;
               m = (if raw_ID raw \<noteq> [] then m\<lparr>ID := raw_ID raw\<rparr> else m)
           in if length (raw_Payload raw) = 0 then (m, None)
              else if raw_Type raw \<in> {gqlConnectionInit, gqlStart, gqlStop, gqlConnectionTerminate} then
                (let (req, err) = json_Unmarshal bind_Request (raw_Payload raw) new_Request
                 in (m\<lparr>Payload := Some (PRequest req)\<rparr>, err))
              else if raw_Type raw \<in> {gqlConnectionError, gqlConnectionAck, gqlData, gqlComplete,
                                        gqlConnectionKeepAlive} then
                (let (resp, err) = json_Unmarshal bind_Response (raw_Payload raw) new_Response
                 in (m\<lparr>Payload := Some (PResponse resp)\<rparr>, err))
              else if raw_Type raw = gqlError then
                (let (serr, err) = json_Unmarshal bind_ServerError (raw_Payload raw) new_ServerError
                 in (m\<lparr>Payload := Some (PServerError serr)\<rparr>, err))
              else (m, Some (UnsupportedMessageType (raw_Type raw)))))"

text \<open>Decoding into a fresh envelope, \<open>new(operationMessage)\<close>.\<close>

definition new_operationMessage :: operationMessage where
  "new_operationMessage = \<lparr>ID = [], Type = [], Payload = None\<rparr>"

definition decode :: "bytes \<Rightarrow> operationMessage \<times> error option" where
  "decode b = UnmarshalJSON new_operationMessage b"

text \<open>
  The payload struct that the switch of \<open>UnmarshalJSON\<close> allocates for a type tag;
  \<open>None\<close> for a tag that reaches its default branch.
\<close>

datatype variant = VRequest | VResponse | VServerError | VUnknown

fun variant_of :: "payload \<Rightarrow> variant" where
  "variant_of (PRequest _) = VRequest"
| "variant_of (PResponse _) = VResponse"
| "variant_of (PServerError _) = VServerError"
| "variant_of (PUnknown _) = VUnknown"

definition variant_for_type :: "reqType \<Rightarrow> variant option" where
  "variant_for_type t =
     (if t \<in> {gqlConnectionInit, gqlStart, gqlStop, gqlConnectionTerminate} then Some VRequest
      else if t \<in> {gqlConnectionError, gqlConnectionAck, gqlData, gqlComplete,
                    gqlConnectionKeepAlive} then Some VResponse
      else if t = gqlError then Some VServerError
      else None)"

text \<open>
  The top-level members of an input text, and a well-typed envelope text: its \<open>id\<close>
  and \<open>type\<close> members, where present, are strings or \<open>null\<close>.
\<close>

definition top_members :: "bytes \<Rightarrow> (string \<times> bytes) list" where
  "top_members b = named_members (skip_space b)"

definition envelope_typed :: "(string \<times> bytes) list \<Rightarrow> bool" where
  "envelope_typed kvs =
     list_all (\<lambda>kv. fst kv \<in> {''id'', ''type''}
                  \<longrightarrow> value_kind (snd kv) \<in> {''string'', ''null''}) kvs"


section \<open>The connection (conn.go)\<close>

text \<open>
  The WebSocket connection \<open>wc\<close> is an external collaborator. It is modelled as a
  scripted transport: \<open>ws_write_result\<close> and \<open>ws_close_result\<close> say what its \<open>Write\<close>
  and \<open>Close\<close> return, and \<open>ws_calls\<close> records the calls made on it, in order.
\<close>

datatype ws_call = WsWrite bytes | WsClose

record wsConn =
  ws_write_result :: "bytes \<Rightarrow> error option"
  ws_close_result :: "error option"
  ws_calls :: "ws_call list"

definition ws_Write :: "wsConn \<Rightarrow> bytes \<Rightarrow> wsConn \<times> error option" where
  "ws_Write w b = (w\<lparr>ws_calls := ws_calls w @ [WsWrite b]\<rparr>, ws_write_result w b)"

definition ws_Close :: "wsConn \<Rightarrow> wsConn \<times> error option" where
  "ws_Close w = (w\<lparr>ws_calls := ws_calls w @ [WsClose]\<rparr>, ws_close_result w)"

text \<open>
  A Go channel is open or closed; the built-in \<open>close\<close> panics on a closed channel.
  A call either returns a value or panics.
\<close>

datatype chan = ChanOpen | ChanClosed

datatype 'a outcome = Returns 'a | Panics string

definition close_chan :: "chan \<Rightarrow> chan outcome" where
  "close_chan ch =
     (case ch of
        ChanOpen \<Rightarrow> Returns ChanClosed
      | ChanClosed \<Rightarrow> Panics ''close of closed channel'')"

record Conn =
  wc :: wsConn
  done_chan :: chan

definition newConn :: "wsConn \<Rightarrow> Conn" where
  "newConn w = \<lparr>wc = w, done_chan = ChanOpen\<rparr>"

text \<open>\<open>Conn.write\<close>: marshal the envelope, then hand the bytes to the transport.\<close>

definition conn_write :: "Conn \<Rightarrow> operationMessage \<Rightarrow> Conn \<times> error option" where
  "conn_write c msg =
     (case MarshalJSON msg of
        (b, Some err) \<Rightarrow> (c, Some err)
      | (b, None) \<Rightarrow>
          (let (w, err) = ws_Write (wc c) b in (c\<lparr>wc := w\<rparr>, err)))"

text \<open>
  \<open>Conn.Close\<close>: close the \<open>done\<close> channel, write the terminate envelope, return its
  error if there is one, and only then close the transport.
\<close>

definition Close :: "Conn \<Rightarrow> Conn \<times> error option outcome" where
  "Close c =
     (case close_chan (done_chan c) of
        Panics msg \<Rightarrow> (c, Panics msg)
      | Returns ch \<Rightarrow>
          (let c = c\<lparr>done_chan := ch\<rparr>;
               (c, err) = conn_write c \<lparr>ID = [], Type = gqlConnectionTerminate, Payload = None\<rparr>
           in case err of
                Some e \<Rightarrow> (c, Returns (Some e))
              | None \<Rightarrow>
                  (let (w, err) = ws_Close (wc c) in (c\<lparr>wc := w\<rparr>, Returns err))))"

section \<open>Test fixtures\<close>

text \<open>The elements of a list of raw values, separated by commas.\<close>

fun comma_join :: "bytes list \<Rightarrow> bytes" where
  "comma_join [] = []"
| "comma_join [e] = e"
| "comma_join (e # es) = e @ '','' @ comma_join es"

text \<open>
  Two transports: one on which every call succeeds, and one whose \<open>Write\<close> fails
  (the peer is gone) while its \<open>Close\<close> would still succeed.
\<close>

definition healthy_ws :: wsConn where
  "healthy_ws = \<lparr>ws_write_result = (\<lambda>b. None), ws_close_result = None, ws_calls = []\<rparr>"

definition broken_ws :: wsConn where
  "broken_ws =
     \<lparr>ws_write_result = (\<lambda>b. Some (TransportError ''broken pipe'')),
      ws_close_result = None, ws_calls = []\<rparr>"

text \<open>The envelope of the repository's encoder test "With Errors".\<close>

definition with_errors_response :: Response where
  \<open>with_errors_response =
     \<lparr>Data = ''{"hello":{"world":"test"}}'',
      Errors = Some [''{"msg":"test"}'', ''{"msg":"test"}'']\<rparr>\<close>

definition with_errors_msg :: operationMessage where
  "with_errors_msg = \<lparr>ID = ''1'', Type = gqlData, Payload = Some (PResponse with_errors_response)\<rparr>"

text \<open>The envelopes of the repository's round-trip test.\<close>

definition all_fields_msg :: operationMessage where
  "all_fields_msg =
     \<lparr>ID = ''1'', Type = gqlStart,
      Payload = Some (PRequest \<lparr>Query = ''{ hello { world } }'', Variables = None,
                                OperationName = []\<rparr>)\<rparr>"

definition missing_payload_msg :: operationMessage where
  "missing_payload_msg = \<lparr>ID = ''1'', Type = gqlComplete, Payload = None\<rparr>"

definition only_type_msg :: operationMessage where
  "only_type_msg = \<lparr>ID = [], Type = gqlConnectionInit, Payload = None\<rparr>"

text \<open>
  A \<open>start\<close> envelope whose query holds a string argument, and one whose variables
  hold a value that \<open>json.Marshal\<close> cannot encode.
\<close>

definition quoted_query_msg :: operationMessage where
  \<open>quoted_query_msg =
     \<lparr>ID = ''1'', Type = gqlStart,
      Payload = Some (PRequest \<lparr>Query = ''{ user(name: "bob") { id } }'', Variables = None,
                                OperationName = []\<rparr>)\<rparr>\<close>



section \<open>Properties of the connection\<close>

lemmas gql_defs =
  gqlConnectionInit_def gqlStart_def gqlStop_def gqlConnectionTerminate_def
  gqlConnectionError_def gqlConnectionAck_def gqlData_def gqlError_def
  gqlComplete_def gqlConnectionKeepAlive_def

lemmas conn_defs =
  Close_def close_chan_def conn_write_def MarshalJSON_def ws_Write_def ws_Close_def

lemma done_closed_after_Close: "done_chan (fst (Close c)) = ChanClosed"
  by (cases "done_chan c")
     (auto simp: conn_defs Let_def split: prod.splits option.splits)

lemma Close_on_closed_chan:
  "done_chan c = ChanClosed \<Longrightarrow> Close c = (c, Panics ''close of closed channel'')"
  by (simp add: Close_def close_chan_def)

text \<open>
  On a healthy transport the first \<open>Close\<close> returns nil after writing the terminate
  envelope and closing the transport, in this order.
\<close>

lemma first_Close_on_healthy_transport:
  \<open>Close (newConn healthy_ws) =
     (\<lparr>wc = healthy_ws\<lparr>ws_calls := [WsWrite ''{"type":"connection_terminate"}'', WsClose]\<rparr>,
       done_chan = ChanClosed\<rparr>,
      Returns None)\<close>
  by (simp add: conn_defs newConn_def healthy_ws_def gqlConnectionTerminate_def)

text \<open>
  C2, as stated, fails: on a connection over a healthy transport the second call of
  \<open>Close\<close> does not return. It panics, because \<open>close(c.done)\<close> runs on the channel
  that the first call closed.
\<close>

theorem second_Close_panics_on_healthy_transport:
  "snd (Close (fst (Close (newConn healthy_ws)))) = Panics ''close of closed channel''"
  by (simp add: Close_on_closed_chan done_closed_after_Close)

text \<open>
  C2, amended: for every connection, a second call of \<open>Close\<close> panics with
  "close of closed channel" at its first statement, and leaves the connection as the
  first call left it: it writes nothing and does not touch the transport, so it does
  not block.
\<close>

theorem second_Close_panics:
  "Close (fst (Close c)) = (fst (Close c), Panics ''close of closed channel'')"
  by (rule Close_on_closed_chan) (rule done_closed_after_Close)

text \<open>
  C3 fails on the code: when the write of the terminate envelope fails, \<open>Close\<close>
  returns that error at once. The only call made on the transport is the failed
  \<open>Write\<close>; the transport's \<open>Close\<close> is never called, although it would have
  succeeded.
\<close>

theorem Close_write_failure_skips_transport_close:
  \<open>Close (newConn broken_ws) =
     (\<lparr>wc = broken_ws\<lparr>ws_calls := [WsWrite ''{"type":"connection_terminate"}'']\<rparr>,
       done_chan = ChanClosed\<rparr>,
      Returns (Some (TransportError ''broken pipe'')))\<close>
  by (simp add: conn_defs newConn_def broken_ws_def gqlConnectionTerminate_def)

section \<open>Properties of the encoder\<close>

lemma write_errors_comma_join:
  "i + int (length errs) = l + 1 \<Longrightarrow> write_errors w l i errs = w @ comma_join errs"
proof (induction errs arbitrary: w i)
  case Nil
  then show ?case by simp
next
  case (Cons e es)
  show ?case
  proof (cases es)
    case Nil
    with Cons.prems show ?thesis by simp
  next
    case (Cons e' es')
    with Cons.prems have "i < l" by simp
    moreover have "(i + 1) + int (length es) = l + 1" using Cons.prems by simp
    ultimately show ?thesis using Cons.IH [of "i + 1"] Cons by simp
  qed
qed

lemma sublist_comma_join: "e \<in> set errs \<Longrightarrow> sublist e (comma_join errs)"
proof (induction errs rule: comma_join.induct)
  case 1
  then show ?case by simp
next
  case (2 e')
  then show ?case by simp
next
  case (3 e' v va)
  show ?case
  proof (cases "e = e'")
    case True
    then show ?thesis by simp
  next
    case False
    with 3 have "sublist e (comma_join (v # va))" by simp
    then obtain ps ss where "comma_join (v # va) = ps @ e @ ss"
      by (auto simp: sublist_def)
    then have "comma_join (e' # v # va) = (e' @ '','' @ ps) @ e @ ss" by simp
    then show ?thesis unfolding sublist_def by blast
  qed
qed

text \<open>What \<open>marshalPayload\<close> appends to the writer for a \<open>Response\<close>.\<close>

lemma marshalPayload_Response:
  \<open>marshalPayload w (PResponse v) =
     (w @ ''{"data":'' @ Data v
        @ (case Errors v of
             None \<Rightarrow> []
           | Some errs \<Rightarrow> '',"errors":['' @ comma_join errs @ '']'')
        @ ''}'',
      None)\<close>
  by (cases "Errors v") (simp_all add: marshalPayload_def write_errors_comma_join)

text \<open>
  C7: for an envelope with a \<open>Response\<close> payload, the output is the envelope's head,
  then \<open>{"data":\<close>, then the bytes of \<open>Data\<close> as they are, then, for non-nil \<open>Errors\<close>,
  the bytes of its elements as they are, in order and separated by single commas,
  between \<open>,"errors":[\<close> and \<open>]\<close>. In particular \<open>Data\<close> and every element of \<open>Errors\<close>
  occur in the output as contiguous byte sequences.
\<close>

theorem Response_raw_values_verbatim:
  assumes "Payload m = Some (PResponse v)"
  shows \<open>fst (MarshalJSON m) =
           ''{'' @ (if ID m \<noteq> [] then ''"id":"'' @ ID m @ ''",'' else [])
             @ ''"type":"'' @ Type m @ ''","payload":{"data":'' @ Data v
             @ (case Errors v of
                  None \<Rightarrow> []
                | Some errs \<Rightarrow> '',"errors":['' @ comma_join errs @ '']'')
             @ ''}}''
         \<and> sublist (Data v) (fst (MarshalJSON m))
         \<and> (\<forall>errs e. Errors v = Some errs \<and> e \<in> set errs
              \<longrightarrow> sublist e (fst (MarshalJSON m)))\<close>
proof -
  let ?id = \<open>if ID m \<noteq> [] then ''"id":"'' @ ID m @ ''",'' else []\<close>
  let ?head = \<open>''{'' @ ?id @ ''"type":"'' @ Type m @ ''","payload":{"data":''\<close>
  let ?errors = \<open>case Errors v of
                   None \<Rightarrow> []
                 | Some errs \<Rightarrow> '',"errors":['' @ comma_join errs @ '']''\<close>
  have out: "fst (MarshalJSON m) = ?head @ Data v @ (?errors @ ''}}'')"
    using assms by (simp add: MarshalJSON_def marshalPayload_Response)
  have data: "sublist (Data v) (fst (MarshalJSON m))"
    by (simp only: out sublist_appendI)
  have errs: "sublist e (fst (MarshalJSON m))"
    if "Errors v = Some errs" and "e \<in> set errs" for errs e
  proof -
    from that(2) obtain ps ss where "comma_join errs = ps @ e @ ss"
      using sublist_comma_join [of e errs] by (auto simp: sublist_def)
    with that(1) have
      \<open>fst (MarshalJSON m) = (?head @ Data v @ '',"errors":['' @ ps) @ e @ (ss @ '']}}'')\<close>
      unfolding out by simp
    then show ?thesis by (simp only: sublist_appendI)
  qed
  show ?thesis
  proof (intro conjI allI impI)
    show \<open>fst (MarshalJSON m) =
            ''{'' @ ?id @ ''"type":"'' @ Type m @ ''","payload":{"data":'' @ Data v @ ?errors @ ''}}''\<close>
      using out by simp
    show "sublist (Data v) (fst (MarshalJSON m))"
      by (rule data)
    show "sublist e (fst (MarshalJSON m))"
      if "Errors v = Some errs \<and> e \<in> set errs" for errs e
      using that errs by blast
  qed
qed

theorem Response_raw_values_verbatim_witness:
  \<open>fst (MarshalJSON with_errors_msg) =
     ''{"id":"1","type":"data","payload":{"data":{"hello":{"world":"test"}},"errors":[{"msg":"test"},{"msg":"test"}]}}''
   \<and> sublist ''{"hello":{"world":"test"}}'' (fst (MarshalJSON with_errors_msg))
   \<and> sublist ''{"msg":"test"}'' (fst (MarshalJSON with_errors_msg))\<close>
proof -
  have p: "Payload with_errors_msg = Some (PResponse with_errors_response)"
    by (simp add: with_errors_msg_def)
  note t = Response_raw_values_verbatim [OF p]
  have 1: \<open>fst (MarshalJSON with_errors_msg) =
     ''{"id":"1","type":"data","payload":{"data":{"hello":{"world":"test"}},"errors":[{"msg":"test"},{"msg":"test"}]}}''\<close>
    by (subst conjunct1 [OF t])
       (simp add: with_errors_msg_def with_errors_response_def gqlData_def)
  have 2: \<open>sublist ''{"hello":{"world":"test"}}'' (fst (MarshalJSON with_errors_msg))\<close>
    using conjunct1 [OF conjunct2 [OF t]] by (simp add: with_errors_response_def)
  have 3: \<open>sublist ''{"msg":"test"}'' (fst (MarshalJSON with_errors_msg))\<close>
    using conjunct2 [OF conjunct2 [OF t]] by (simp add: with_errors_response_def)
  from 1 2 3 show ?thesis by blast
qed

text \<open>
  C6 fails on the code: \<open>marshalPayload\<close> tests \<open>v.Variables != nil\<close> and
  \<open>v.Errors != nil\<close>, not emptiness. A non-nil empty \<open>Variables\<close> map is emitted as
  \<open>"variables":{}\<close>, and a non-nil empty \<open>Errors\<close> slice as \<open>"errors":[]\<close>.
\<close>

theorem empty_variables_and_errors_are_emitted:
  \<open>marshalPayload [] (PRequest \<lparr>Query = ''q'', Variables = Some [], OperationName = []\<rparr>)
     = (''{"query":"q","variables":{}}'', None)
   \<and> marshalPayload [] (PResponse \<lparr>Data = ''null'', Errors = Some []\<rparr>)
     = (''{"data":null,"errors":[]}'', None)\<close>
  by code_simp


section \<open>Properties of the decoder\<close>

text \<open>The three cases of the repository's round-trip test hold in the model.\<close>

lemma roundtrip_all_fields:
  "decode (fst (MarshalJSON all_fields_msg)) = (all_fields_msg, None)"
  by code_simp

lemma roundtrip_missing_payload:
  "decode (fst (MarshalJSON missing_payload_msg)) = (missing_payload_msg, None)"
  by code_simp

lemma roundtrip_only_type:
  "decode (fst (MarshalJSON only_type_msg)) = (only_type_msg, None)"
  by code_simp

text \<open>
  C1 fails on the code: the encoder copies \<open>Query\<close> between two quotes without
  escaping it. For a \<open>start\<close> envelope whose query holds a string argument, the
  output is not JSON, and decoding it ends with a syntax error and an untouched
  envelope instead of the original.
\<close>

theorem roundtrip_fails_on_quoted_query:
  \<open>fst (MarshalJSON quoted_query_msg) =
     ''{"id":"1","type":"start","payload":{"query":"{ user(name: "bob") { id } }"}}''
   \<and> decode (fst (MarshalJSON quoted_query_msg)) = (new_operationMessage, Some SyntaxError)\<close>
  by code_simp

text \<open>
  C4 fails on the code: \<open>UnmarshalJSON\<close> returns nil when the payload is absent,
  before it reaches the switch whose default branch refuses an unsupported type.
  An envelope of an unknown type and no payload decodes without error.
\<close>

theorem unknown_type_without_payload_decodes:
  \<open>decode ''{"type":"bogus"}'' = (\<lparr>ID = [], Type = ''bogus'', Payload = None\<rparr>, None)
   \<and> ''bogus'' \<notin> set known_types\<close>
  by code_simp

end
